theory Spec2Isabelle
  imports Complex_Main
begin

section \<open>Values that reach the schemas\<close>

text \<open>
  \<^verbatim>\<open>app/api/schemas.py\<close> declares pydantic (v2) models. A model is built from a
  mapping of field names to Python values (keyword arguments or a decoded JSON body),
  and pydantic either returns an instance or raises a validation error that lists one
  entry per offending field.

  A Python \<^verbatim>\<open>str\<close> is a sequence of code points and \<^verbatim>\<open>len\<close> counts code points,
  so a string is a list of code-point numbers. A Python \<^verbatim>\<open>float\<close> is an IEEE double:
  a finite value (every one of them is a real number, and their order is the order of
  the reals), an infinity, or NaN. Field names are ASCII identifiers and are written as
  Isabelle strings.
\<close>

type_synonym py_str = "nat list"

datatype py_float = Finite real | PosInf | NegInf | NaN

datatype py_value =
    PNone
  | PBool bool
  | PInt int
  | PFloat py_float
  | PStr py_str
  | PList "py_value list"
  | PDict "(string \<times> py_value) list"

type_synonym py_dict = "(string \<times> py_value) list"

definition str_of :: "string \<Rightarrow> py_str" where
  "str_of s = map of_char s"

subsection \<open>Validation errors\<close>

text \<open>
  One entry of a pydantic validation error: where (the path of field names and list
  indices) and what kind.
\<close>

datatype loc_item = Key string | Idx nat

datatype error_type =
    Missing
  | StringType | StringTooShort | StringTooLong
  | BoolType | BoolParsing
  | FloatType | FloatParsing | GreaterThanEqual | LessThanEqual
  | DictType | ListType | ModelType

type_synonym line_error = "loc_item list \<times> error_type"

subsection \<open>Field validators (pydantic's default, lax mode)\<close>

text \<open>
  Two conversions of the lax mode are computed by the Python runtime and are taken as
  parameters: \<^verbatim>\<open>float(n)\<close> for an integer (rounding to a double, no result on
  overflow) and the parsing of a numeric string.
\<close>

record conversions =
  float_of_int :: "int \<Rightarrow> py_float option"
  float_of_str :: "py_str \<Rightarrow> py_float option"

fun str_validator :: "py_value \<Rightarrow> error_type + py_str" where
  "str_validator (PStr s) = Inr s"
| "str_validator _ = Inl StringType"

text \<open>\<^verbatim>\<open>Field(min_length=.., max_length=..)\<close> on a \<^verbatim>\<open>str\<close>: the length in code points.\<close>

definition constrained_str :: "nat option \<Rightarrow> nat option \<Rightarrow> py_value \<Rightarrow> error_type + py_str" where
  "constrained_str min_length max_length v =
     (case str_validator v of
        Inl e \<Rightarrow> Inl e
      | Inr s \<Rightarrow>
          if (case min_length of None \<Rightarrow> False | Some m \<Rightarrow> length s < m) then Inl StringTooShort
          else if (case max_length of None \<Rightarrow> False | Some m \<Rightarrow> m < length s) then Inl StringTooLong
          else Inr s)"

definition ascii_lower :: "nat \<Rightarrow> nat" where
  "ascii_lower c = (if 65 \<le> c \<and> c \<le> 90 then c + 32 else c)"

definition bool_false_words :: "py_str list" where
  "bool_false_words = map str_of [''0'', ''off'', ''f'', ''false'', ''n'', ''no'']"

definition bool_true_words :: "py_str list" where
  "bool_true_words = map str_of [''1'', ''on'', ''t'', ''true'', ''y'', ''yes'']"

fun bool_validator :: "py_value \<Rightarrow> error_type + bool" where
  "bool_validator (PBool b) = Inr b"
| "bool_validator (PInt n) = (if n = 0 then Inr False else if n = 1 then Inr True else Inl BoolParsing)"
| "bool_validator (PFloat (Finite r)) =
     (if r = 0 then Inr False else if r = 1 then Inr True
      else if r \<in> \<int> then Inl BoolParsing else Inl BoolType)"
| "bool_validator (PFloat _) = Inl BoolType"
| "bool_validator (PStr s) =
     (if map ascii_lower s \<in> set bool_false_words then Inr False
      else if map ascii_lower s \<in> set bool_true_words then Inr True
      else Inl BoolParsing)"
| "bool_validator _ = Inl BoolType"

fun float_validator :: "conversions \<Rightarrow> py_value \<Rightarrow> error_type + py_float" where
  "float_validator L (PFloat x) = Inr x"
| "float_validator L (PInt n) = (case float_of_int L n of None \<Rightarrow> Inl FloatType | Some x \<Rightarrow> Inr x)"
| "float_validator L (PBool b) = Inr (Finite (if b then 1 else 0))"
| "float_validator L (PStr s) = (case float_of_str L s of None \<Rightarrow> Inl FloatParsing | Some x \<Rightarrow> Inr x)"
| "float_validator L _ = Inl FloatType"

text \<open>
  The comparisons of Python floats: \<^verbatim>\<open>x >= b\<close> and \<^verbatim>\<open>x <= b\<close> for a finite bound
  \<^verbatim>\<open>b\<close>. Both are false when \<^verbatim>\<open>x\<close> is NaN.
\<close>

fun float_ge :: "py_float \<Rightarrow> real \<Rightarrow> bool" where
  "float_ge (Finite r) b = (b \<le> r)"
| "float_ge PosInf b = True"
| "float_ge NegInf b = False"
| "float_ge NaN b = False"

fun float_le :: "py_float \<Rightarrow> real \<Rightarrow> bool" where
  "float_le (Finite r) b = (r \<le> b)"
| "float_le PosInf b = False"
| "float_le NegInf b = True"
| "float_le NaN b = False"

text \<open>\<^verbatim>\<open>Field(ge=.., le=..)\<close> on a \<^verbatim>\<open>float\<close>: the value must compare true against each bound.\<close>

definition constrained_float ::
  "conversions \<Rightarrow> real option \<Rightarrow> real option \<Rightarrow> py_value \<Rightarrow> error_type + py_float" where
  "constrained_float L ge le v =
     (case float_validator L v of
        Inl e \<Rightarrow> Inl e
      | Inr x \<Rightarrow>
          if (case le of None \<Rightarrow> False | Some b \<Rightarrow> \<not> float_le x b) then Inl LessThanEqual
          else if (case ge of None \<Rightarrow> False | Some b \<Rightarrow> \<not> float_ge x b) then Inl GreaterThanEqual
          else Inr x)"

fun dict_validator :: "py_value \<Rightarrow> error_type + py_dict" where
  "dict_validator (PDict d) = Inr d"
| "dict_validator _ = Inl DictType"

text \<open>
  \<^verbatim>\<open>T | None\<close>: \<^verbatim>\<open>None\<close> is accepted as it is, anything else goes to the validator of
  \<^verbatim>\<open>T\<close>; the constraints of the field apply to that inner validator.
\<close>

definition nullable :: "(py_value \<Rightarrow> 'e + 'a) \<Rightarrow> py_value \<Rightarrow> 'e + 'a option" where
  "nullable inner v =
     (case v of
        PNone \<Rightarrow> Inr None
      | _ \<Rightarrow> (case inner v of Inl e \<Rightarrow> Inl e | Inr a \<Rightarrow> Inr (Some a)))"

subsection \<open>Fields of a model\<close>

text \<open>
  A field declared \<^verbatim>\<open>Field(...)\<close> is required: a missing key is the error
  \<^verbatim>\<open>missing\<close>. A field declared with a default takes the default when the key is
  missing (the default itself is not validated). A field's errors carry the field name.
\<close>

definition at_field :: "string \<Rightarrow> error_type + 'a \<Rightarrow> line_error list + 'a" where
  "at_field name r = (case r of Inl e \<Rightarrow> Inl [([Key name], e)] | Inr a \<Rightarrow> Inr a)"

definition required_field ::
  "py_dict \<Rightarrow> string \<Rightarrow> (py_value \<Rightarrow> line_error list + 'a) \<Rightarrow> line_error list + 'a" where
  "required_field raw name validator =
     (case map_of raw name of
        None \<Rightarrow> Inl [([Key name], Missing)]
      | Some v \<Rightarrow> validator v)"

definition default_field ::
  "py_dict \<Rightarrow> string \<Rightarrow> 'a \<Rightarrow> (py_value \<Rightarrow> line_error list + 'a) \<Rightarrow> line_error list + 'a" where
  "default_field raw name dflt validator =
     (case map_of raw name of
        None \<Rightarrow> Inr dflt
      | Some v \<Rightarrow> validator v)"

definition errors_of :: "line_error list + 'a \<Rightarrow> line_error list" where
  "errors_of r = (case r of Inl es \<Rightarrow> es | Inr _ \<Rightarrow> [])"

section \<open>Query schemas\<close>

subsection \<open>QueryRequest\<close>

record QueryRequest =
  question :: py_str
  include_sources :: bool
  enable_evaluation :: bool

definition QueryRequest_question :: "py_value \<Rightarrow> line_error list + py_str" where
  "QueryRequest_question v = at_field ''question'' (constrained_str (Some 1) (Some 1000) v)"

definition QueryRequest_include_sources :: "py_value \<Rightarrow> line_error list + bool" where
  "QueryRequest_include_sources v = at_field ''include_sources'' (bool_validator v)"

definition QueryRequest_enable_evaluation :: "py_value \<Rightarrow> line_error list + bool" where
  "QueryRequest_enable_evaluation v = at_field ''enable_evaluation'' (bool_validator v)"

definition validate_QueryRequest :: "py_dict \<Rightarrow> line_error list + QueryRequest" where
  "validate_QueryRequest raw =
     (let q = required_field raw ''question'' QueryRequest_question;
          s = default_field raw ''include_sources'' True QueryRequest_include_sources;
          e = default_field raw ''enable_evaluation'' False QueryRequest_enable_evaluation
      in case (q, s, e) of
           (Inr q', Inr s', Inr e') \<Rightarrow>
             Inr \<lparr>question = q', include_sources = s', enable_evaluation = e'\<rparr>
         | _ \<Rightarrow> Inl (errors_of q @ errors_of s @ errors_of e))"

subsection \<open>SourceDocument\<close>

record SourceDocument =
  content :: py_str
  metadata :: py_dict

definition validate_SourceDocument :: "py_dict \<Rightarrow> line_error list + SourceDocument" where
  "validate_SourceDocument raw =
     (let c = required_field raw ''content'' (\<lambda>v. at_field ''content'' (str_validator v));
          m = required_field raw ''metadata'' (\<lambda>v. at_field ''metadata'' (dict_validator v))
      in case (c, m) of
           (Inr c', Inr m') \<Rightarrow> Inr \<lparr>content = c', metadata = m'\<rparr>
         | _ \<Rightarrow> Inl (errors_of c @ errors_of m))"

subsection \<open>EvaluationScores\<close>

record EvaluationScores =
  faithfulness :: "py_float option"
  answer_relevancy :: "py_float option"
  evaluation_time_ms :: "py_float option"
  error :: "py_str option"

definition EvaluationScores_faithfulness ::
  "conversions \<Rightarrow> py_value \<Rightarrow> line_error list + py_float option" where
  "EvaluationScores_faithfulness L v =
     at_field ''faithfulness'' (nullable (constrained_float L (Some 0) (Some 1)) v)"

definition EvaluationScores_answer_relevancy ::
  "conversions \<Rightarrow> py_value \<Rightarrow> line_error list + py_float option" where
  "EvaluationScores_answer_relevancy L v =
     at_field ''answer_relevancy'' (nullable (constrained_float L (Some 0) (Some 1)) v)"

definition EvaluationScores_evaluation_time_ms ::
  "conversions \<Rightarrow> py_value \<Rightarrow> line_error list + py_float option" where
  "EvaluationScores_evaluation_time_ms L v =
     at_field ''evaluation_time_ms'' (nullable (constrained_float L None None) v)"

definition EvaluationScores_error :: "py_value \<Rightarrow> line_error list + py_str option" where
  "EvaluationScores_error v = at_field ''error'' (nullable str_validator v)"

definition validate_EvaluationScores ::
  "conversions \<Rightarrow> py_dict \<Rightarrow> line_error list + EvaluationScores" where
  "validate_EvaluationScores L raw =
     (let f = default_field raw ''faithfulness'' None (EvaluationScores_faithfulness L);
          a = default_field raw ''answer_relevancy'' None (EvaluationScores_answer_relevancy L);
          t = default_field raw ''evaluation_time_ms'' None (EvaluationScores_evaluation_time_ms L);
          e = default_field raw ''error'' None EvaluationScores_error
      in case (f, a, t, e) of
           (Inr f', Inr a', Inr t', Inr e') \<Rightarrow>
             Inr \<lparr>faithfulness = f', answer_relevancy = a', evaluation_time_ms = t', error = e'\<rparr>
         | _ \<Rightarrow> Inl (errors_of f @ errors_of a @ errors_of t @ errors_of e))"

subsection \<open>Nested models and lists\<close>

text \<open>
  A field whose type is a model takes a dictionary and validates it as that model; the
  errors of the nested model are reported under the field's name. A list validates each
  item and reports an item's errors under its index.
\<close>

definition prefix_loc :: "loc_item \<Rightarrow> line_error list + 'a \<Rightarrow> line_error list + 'a" where
  "prefix_loc p r = (case r of Inl es \<Rightarrow> Inl (map (\<lambda>(loc, e). (p # loc, e)) es) | Inr a \<Rightarrow> Inr a)"

definition model_validator ::
  "(py_dict \<Rightarrow> line_error list + 'a) \<Rightarrow> py_value \<Rightarrow> line_error list + 'a" where
  "model_validator validate v = (case v of PDict d \<Rightarrow> validate d | _ \<Rightarrow> Inl [([], ModelType)])"

definition list_validator ::
  "(py_value \<Rightarrow> line_error list + 'a) \<Rightarrow> py_value \<Rightarrow> line_error list + 'a list" where
  "list_validator item v =
     (case v of
        PList xs \<Rightarrow>
          (let rs = map (\<lambda>(i, x). prefix_loc (Idx i) (item x)) (enumerate 0 xs)
           in if list_all (\<lambda>r. \<not> isl r) rs then Inr (map projr rs)
              else Inl (concat (map errors_of rs)))
      | _ \<Rightarrow> Inl [([], ListType)])"

subsection \<open>QueryResponse\<close>

record QueryResponse =
  question :: py_str
  answer :: py_str
  sources :: "SourceDocument list option"
  processing_time_ms :: py_float
  evaluation :: "EvaluationScores option"

definition QueryResponse_sources :: "py_value \<Rightarrow> line_error list + SourceDocument list option" where
  "QueryResponse_sources v =
     prefix_loc (Key ''sources'')
       (nullable (list_validator (model_validator validate_SourceDocument)) v)"

definition QueryResponse_evaluation ::
  "conversions \<Rightarrow> py_value \<Rightarrow> line_error list + EvaluationScores option" where
  "QueryResponse_evaluation L v =
     prefix_loc (Key ''evaluation'')
       (nullable (model_validator (validate_EvaluationScores L)) v)"

definition validate_QueryResponse ::
  "conversions \<Rightarrow> py_dict \<Rightarrow> line_error list + QueryResponse" where
  "validate_QueryResponse L raw =
     (let q = required_field raw ''question'' (\<lambda>v. at_field ''question'' (str_validator v));
          a = required_field raw ''answer'' (\<lambda>v. at_field ''answer'' (str_validator v));
          s = default_field raw ''sources'' None QueryResponse_sources;
          t = required_field raw ''processing_time_ms''
                (\<lambda>v. at_field ''processing_time_ms'' (constrained_float L None None v));
          e = default_field raw ''evaluation'' None (QueryResponse_evaluation L)
      in case (q, a, s, t, e) of
           (Inr q', Inr a', Inr s', Inr t', Inr e') \<Rightarrow>
             Inr \<lparr>question = q', answer = a', sources = s', processing_time_ms = t',
                  evaluation = e'\<rparr>
         | _ \<Rightarrow> Inl (errors_of q @ errors_of a @ errors_of s @ errors_of t @ errors_of e))"

section \<open>Health schemas\<close>

subsection \<open>ReadinessResponse\<close>

record ReadinessResponse =
  status :: py_str
  qdrant_connected :: bool
  collection_info :: py_dict

definition validate_ReadinessResponse :: "py_dict \<Rightarrow> line_error list + ReadinessResponse" where
  "validate_ReadinessResponse raw =
     (let s = required_field raw ''status'' (\<lambda>v. at_field ''status'' (str_validator v));
          c = required_field raw ''qdrant_connected''
                (\<lambda>v. at_field ''qdrant_connected'' (bool_validator v));
          i = required_field raw ''collection_info''
                (\<lambda>v. at_field ''collection_info'' (dict_validator v))
      in case (s, c, i) of
           (Inr s', Inr c', Inr i') \<Rightarrow>
             Inr \<lparr>status = s', qdrant_connected = c', collection_info = i'\<rparr>
         | _ \<Rightarrow> Inl (errors_of s @ errors_of c @ errors_of i))"

section \<open>The query pipeline\<close>

text \<open>
  The schemas are the only code of the service at hand: the pipeline that fills them
  (retriever, generator, evaluator and the HTTP boundary) is described by the
  specification alone. The definitions of this section follow its sections 3, 4, 6
  and 7. The external collaborators are parameters.
\<close>

text \<open>
  Modelled from the spec: the VectorIndex collaborator (section 2, 4.1), which is either
  unreachable or holds the stored chunks in insertion order.
\<close>

datatype vector_index = Unreachable py_str | Collection "SourceDocument list"

text \<open>
  Modelled from the spec: the calls a query issues against its collaborators, the
  observable side effects of section 4.2.
\<close>

datatype call = RetrievalRead | GenerationCall | EvaluationCall

text \<open>
  Modelled from the spec: the external collaborators of one query (section 2): the
  index, its similarity score, the generation model (\<open>Inl\<close> is a provider error or a
  timeout, with its message), the metric computation inside the evaluator (\<open>Inl\<close> is
  an internal failure or a timeout, with its message; \<open>Inr\<close> is the pair of
  faithfulness and relevancy), and the wall-clock time each call takes.
\<close>

record collaborators =
  index :: vector_index
  similarity :: "py_str \<Rightarrow> SourceDocument \<Rightarrow> real"
  generator :: "py_str \<Rightarrow> SourceDocument list \<Rightarrow> py_str + py_str"
  metrics :: "py_str \<Rightarrow> py_str \<Rightarrow> SourceDocument list \<Rightarrow> py_str + py_float \<times> py_float"
  latency_ms :: "call \<Rightarrow> real"

text \<open>
  Modelled from the spec: the error taxonomy of section 7, for the failures that end a
  request.
\<close>

datatype request_error =
    ValidationError "line_error list"
  | RetrievalFailed py_str
  | GenerationFailed py_str

text \<open>
  Modelled from the spec: the Retriever's failure of section 4.1, when the VectorIndex
  cannot be reached.
\<close>

datatype retriever_error = IndexUnavailable py_str

text \<open>
  Modelled from the spec: \<^verbatim>\<open>retrieve(question, k)\<close> of section 4.1. The passages are
  ranked by similarity, highest first, ties in insertion order, and the \<open>k\<close> best are
  returned; an empty collection gives the empty sequence; an unreachable index is the
  failure \<open>IndexUnavailable\<close>.
\<close>

definition Retriever_retrieve ::
  "collaborators \<Rightarrow> py_str \<Rightarrow> nat \<Rightarrow> retriever_error + SourceDocument list" where
  "Retriever_retrieve C q k =
     (case index C of
        Unreachable why \<Rightarrow> Inl (IndexUnavailable why)
      | Collection chunks \<Rightarrow> Inr (take k (sort_key (\<lambda>c. - similarity C q c) chunks)))"

text \<open>
  Modelled from the spec: \<^verbatim>\<open>score(question, answer, sources)\<close> of section 4.3. It
  never fails: an internal failure becomes the value with both scores absent and the
  message in \<open>error\<close>. The evaluator records its own elapsed time.
\<close>

definition Evaluator_score ::
  "collaborators \<Rightarrow> py_str \<Rightarrow> py_str \<Rightarrow> SourceDocument list \<Rightarrow> EvaluationScores" where
  "Evaluator_score C q a passages =
     (case metrics C q a passages of
        Inl message \<Rightarrow>
          \<lparr>faithfulness = None, answer_relevancy = None,
           evaluation_time_ms = Some (Finite (latency_ms C EvaluationCall)),
           error = Some message\<rparr>
      | Inr (f, r) \<Rightarrow>
          \<lparr>faithfulness = Some f, answer_relevancy = Some r,
           evaluation_time_ms = Some (Finite (latency_ms C EvaluationCall)),
           error = None\<rparr>)"

text \<open>
  Modelled from the spec: \<^verbatim>\<open>answer(query)\<close> of section 4.2, steps 2 to 6, for a
  query the boundary has validated, with the top-k option \<open>k\<close>. The result is the
  list of calls issued and either the failure or the QueryResult (the schema
  \<open>QueryResponse\<close>). The processing time is the wall-clock time from the start of
  retrieval to the end of the last step that ran.
\<close>

definition QueryPipeline_answer ::
  "collaborators \<Rightarrow> nat \<Rightarrow> QueryRequest \<Rightarrow> call list \<times> (request_error + QueryResponse)" where
  "QueryPipeline_answer C k query =
     (let q = QueryRequest.question query in
      case Retriever_retrieve C q k of
        Inl (IndexUnavailable why) \<Rightarrow> ([RetrievalRead], Inl (RetrievalFailed why))
      | Inr passages \<Rightarrow>
          (case generator C q passages of
             Inl message \<Rightarrow> ([RetrievalRead, GenerationCall], Inl (GenerationFailed message))
           | Inr text \<Rightarrow>
               (let calls = [RetrievalRead, GenerationCall] @
                      (if enable_evaluation query then [EvaluationCall] else [])
                in (calls,
                    Inr \<lparr>question = q, answer = text,
                         sources = (if include_sources query then Some passages else None),
                         processing_time_ms = Finite (sum_list (map (latency_ms C) calls)),
                         evaluation = (if enable_evaluation query
                                       then Some (Evaluator_score C q text passages)
                                       else None)\<rparr>))))"

text \<open>
  Modelled from the spec: the boundary \<^verbatim>\<open>POST /query\<close> of sections 6 and 7. The body is
  validated as a \<open>QueryRequest\<close>; a validation error is returned before any component
  runs, and a valid request goes to the pipeline.
\<close>

definition post_query ::
  "collaborators \<Rightarrow> nat \<Rightarrow> py_dict \<Rightarrow> call list \<times> (request_error + QueryResponse)" where
  "post_query C k body =
     (case validate_QueryRequest body of
        Inl errors \<Rightarrow> ([], Inl (ValidationError errors))
      | Inr query \<Rightarrow> QueryPipeline_answer C k query)"

text \<open>
  The keyword arguments that spell out every field of an instance: constructing the
  model from them is how an instance with these field values comes to exist.
\<close>

definition opt_value :: "('a \<Rightarrow> py_value) \<Rightarrow> 'a option \<Rightarrow> py_value" where
  "opt_value f x = (case x of None \<Rightarrow> PNone | Some a \<Rightarrow> f a)"

definition EvaluationScores_kwargs :: "EvaluationScores \<Rightarrow> py_dict" where
  "EvaluationScores_kwargs es =
     [(''faithfulness'', opt_value PFloat (faithfulness es)),
      (''answer_relevancy'', opt_value PFloat (answer_relevancy es)),
      (''evaluation_time_ms'', opt_value PFloat (evaluation_time_ms es)),
      (''error'', opt_value PStr (error es))]"

section \<open>Worked inputs\<close>

text \<open>
  A request whose two flags, where given, are values the boolean validator accepts.
\<close>

definition flags_accepted :: "py_dict \<Rightarrow> bool" where
  "flags_accepted body =
     (\<forall>name \<in> {''include_sources'', ''enable_evaluation''}.
        case map_of body name of None \<Rightarrow> True | Some v \<Rightarrow> \<not> isl (bool_validator v))"

text \<open>
  A score field's value as the schema allows it: absent, or within the closed interval
  from 0 to 1 under Python's comparisons.
\<close>

definition unit_score :: "py_float option \<Rightarrow> bool" where
  "unit_score s = (case s of None \<Rightarrow> True | Some x \<Rightarrow> float_ge x 0 \<and> float_le x 1)"

text \<open>
  Conversions for the worked examples: integers up to \<open>2 ^ 53\<close> in magnitude, which a
  double holds exactly, convert; numeric strings are not used.
\<close>

definition small_int_conversions :: conversions where
  "small_int_conversions =
     \<lparr>float_of_int = (\<lambda>n. if \<bar>n\<bar> \<le> 2 ^ 53 then Some (Finite (of_int n)) else None),
      float_of_str = (\<lambda>s. None)\<rparr>"

text \<open>
  The scenario of the specification's section 8: an index of four chunks, a generator
  that answers, and (for the degraded case) an evaluator that fails.
\<close>

definition scenario_chunks :: "SourceDocument list" where
  "scenario_chunks =
     [\<lparr>content = str_of ''RAG is retrieval-augmented generation.'', metadata = [(''page'', PInt 1)]\<rparr>,
      \<lparr>content = str_of ''A retriever ranks passages.'', metadata = []\<rparr>,
      \<lparr>content = str_of ''A generator writes the answer.'', metadata = []\<rparr>,
      \<lparr>content = str_of ''An evaluator scores it.'', metadata = []\<rparr>]"

definition scenario :: collaborators where
  "scenario =
     \<lparr>index = Collection scenario_chunks,
      similarity = (\<lambda>q c. real (length (content c))),
      generator = (\<lambda>q passages. Inr (str_of ''Retrieval-augmented generation.'')),
      metrics = (\<lambda>q a passages. Inl (str_of ''evaluator timed out'')),
      latency_ms = (\<lambda>c. 5)\<rparr>"

text \<open>The scenario's query, \<^verbatim>\<open>"What is RAG?"\<close>, with the two flags as given.\<close>

definition scenario_query :: "bool \<Rightarrow> bool \<Rightarrow> QueryRequest" where
  "scenario_query s e =
     \<lparr>QueryRequest.question = str_of ''What is RAG?'', include_sources = s, enable_evaluation = e\<rparr>"

section \<open>Properties of the schemas and of the pipeline\<close>

subsection \<open>Collected errors\<close>

lemma errors_of_simps [simp]: "errors_of (Inl es) = es" "errors_of (Inr a) = []"
  by (simp_all add: errors_of_def)

subsection \<open>QueryRequest\<close>

lemma validate_QueryRequest_errors:
  "errors_of (validate_QueryRequest body) =
     errors_of (required_field body ''question'' QueryRequest_question) @
     errors_of (default_field body ''include_sources'' True QueryRequest_include_sources) @
     errors_of (default_field body ''enable_evaluation'' False QueryRequest_enable_evaluation)"
  by (auto simp: validate_QueryRequest_def Let_def split: sum.splits)

lemma QueryRequest_question_PStr:
  "QueryRequest_question (PStr q) =
     (if length q < 1 then Inl [([Key ''question''], StringTooShort)]
      else if 1000 < length q then Inl [([Key ''question''], StringTooLong)]
      else Inr q)"
  by (simp add: QueryRequest_question_def constrained_str_def at_field_def)

lemma flag_fields_accepted:
  assumes "flags_accepted body"
  shows "\<exists>s e. default_field body ''include_sources'' True QueryRequest_include_sources = Inr s \<and>
     default_field body ''enable_evaluation'' False QueryRequest_enable_evaluation = Inr e"
  using assms
  by (auto simp: flags_accepted_def default_field_def QueryRequest_include_sources_def
      QueryRequest_enable_evaluation_def at_field_def split: option.splits sum.splits)

lemma flag_field_locs:
  "(loc, e) \<in> set (errors_of (default_field body ''include_sources'' True QueryRequest_include_sources))
     \<Longrightarrow> loc = [Key ''include_sources'']"
  "(loc, e) \<in> set (errors_of (default_field body ''enable_evaluation'' False QueryRequest_enable_evaluation))
     \<Longrightarrow> loc = [Key ''enable_evaluation'']"
  by (auto simp: default_field_def QueryRequest_include_sources_def
      QueryRequest_enable_evaluation_def at_field_def split: option.splits sum.splits)

text \<open>
  Claim C1. A request whose \<open>question\<close> is a string is accepted if and only if the
  string has between 1 and 1000 characters (the flags being absent or acceptable). With
  a length in that range no error is reported for the question; an empty question is
  rejected with \<open>string_too_short\<close> and one of more than 1000 characters with
  \<open>string_too_long\<close>, reported at the field \<open>question\<close>, whatever the other
  fields hold. Rejection yields no \<open>QueryRequest\<close>, so nothing can be handed on.
\<close>

theorem QueryRequest_question_length:
  assumes "map_of body ''question'' = Some (PStr q)"
  shows "(flags_accepted body \<longrightarrow>
            ((\<exists>r. validate_QueryRequest body = Inr r) \<longleftrightarrow> 1 \<le> length q \<and> length q \<le> 1000))
       \<and> (1 \<le> length q \<and> length q \<le> 1000 \<longrightarrow>
            (\<forall>e. ([Key ''question''], e) \<notin> set (errors_of (validate_QueryRequest body))))
       \<and> (length q = 0 \<longrightarrow>
            (\<exists>errors. validate_QueryRequest body = Inl errors
               \<and> ([Key ''question''], StringTooShort) \<in> set errors))
       \<and> (1000 < length q \<longrightarrow>
            (\<exists>errors. validate_QueryRequest body = Inl errors
               \<and> ([Key ''question''], StringTooLong) \<in> set errors))"
proof -
  have field: "required_field body ''question'' QueryRequest_question =
     (if length q < 1 then Inl [([Key ''question''], StringTooShort)]
      else if 1000 < length q then Inl [([Key ''question''], StringTooLong)]
      else Inr q)"
    using assms by (simp add: required_field_def QueryRequest_question_PStr)
  have accept: "(\<exists>r. validate_QueryRequest body = Inr r) \<longleftrightarrow> 1 \<le> length q \<and> length q \<le> 1000"
    if fl: "flags_accepted body"
  proof -
    obtain s e where
      "default_field body ''include_sources'' True QueryRequest_include_sources = Inr s"
      "default_field body ''enable_evaluation'' False QueryRequest_enable_evaluation = Inr e"
      using flag_fields_accepted [OF fl] by blast
    then show ?thesis
      by (auto simp: validate_QueryRequest_def Let_def field Suc_le_eq)
  qed
  have clean: "([Key ''question''], e) \<notin> set (errors_of (validate_QueryRequest body))"
    if "1 \<le> length q \<and> length q \<le> 1000" for e
  proof
    assume "([Key ''question''], e) \<in> set (errors_of (validate_QueryRequest body))"
    moreover have "errors_of (required_field body ''question'' QueryRequest_question) = []"
      using that by (simp add: field Suc_le_eq)
    ultimately have "[Key ''question''] = [Key ''include_sources''] \<or>
        [Key ''question''] = [Key ''enable_evaluation'']"
      using flag_field_locs [of "[Key ''question'']" e body]
      by (auto simp: validate_QueryRequest_errors)
    then show False by simp
  qed
  have short: "\<exists>errors. validate_QueryRequest body = Inl errors
               \<and> ([Key ''question''], StringTooShort) \<in> set errors"
    if "length q = 0"
    using that
    by (auto simp: validate_QueryRequest_def Let_def field split: sum.splits)
  have long: "\<exists>errors. validate_QueryRequest body = Inl errors
               \<and> ([Key ''question''], StringTooLong) \<in> set errors"
    if "1000 < length q"
    using that
    by (auto simp: validate_QueryRequest_def Let_def field split: sum.splits)
  from accept clean short long show ?thesis by blast
qed

theorem QueryRequest_question_length_witness:
  "map_of [(''question'', PStr (str_of ''What is RAG?''))] ''question'' = Some (PStr (str_of ''What is RAG?''))
   \<and> flags_accepted [(''question'', PStr (str_of ''What is RAG?''))]
   \<and> (\<exists>r. validate_QueryRequest [(''question'', PStr (str_of ''What is RAG?''))] = Inr r)
   \<and> length ([] :: py_str) = 0
   \<and> (\<exists>errors. validate_QueryRequest [(''question'', PStr [])] = Inl errors
               \<and> ([Key ''question''], StringTooShort) \<in> set errors)
   \<and> 1000 < length (replicate 1001 (63::nat))
   \<and> (\<exists>errors. validate_QueryRequest [(''question'', PStr (replicate 1001 63))] = Inl errors
               \<and> ([Key ''question''], StringTooLong) \<in> set errors)"
  using QueryRequest_question_length [of "[(''question'', PStr (str_of ''What is RAG?''))]" "str_of ''What is RAG?''"]
    QueryRequest_question_length [of "[(''question'', PStr [])]" "[]"]
    QueryRequest_question_length [of "[(''question'', PStr (replicate 1001 63))]" "replicate 1001 63"]
  by (simp add: flags_accepted_def str_of_def)

text \<open>
  Claim C9. A request built from a question alone, of 1 to 1000 characters, is valid,
  with \<open>include_sources\<close> true and \<open>enable_evaluation\<close> false.
\<close>

theorem QueryRequest_defaults:
  "1 \<le> length q \<Longrightarrow> length q \<le> 1000 \<Longrightarrow>
   validate_QueryRequest [(''question'', PStr q)] =
     Inr \<lparr>QueryRequest.question = q, include_sources = True, enable_evaluation = False\<rparr>"
  by (auto simp: validate_QueryRequest_def required_field_def default_field_def
      QueryRequest_question_PStr)

theorem QueryRequest_defaults_witness:
  "1 \<le> length (str_of ''What is RAG?'') \<and> length (str_of ''What is RAG?'') \<le> 1000 \<and>
   validate_QueryRequest [(''question'', PStr (str_of ''What is RAG?''))] =
     Inr \<lparr>QueryRequest.question = str_of ''What is RAG?'', include_sources = True,
          enable_evaluation = False\<rparr>"
  using QueryRequest_defaults [of "str_of ''What is RAG?''"] by (simp add: str_of_def)

subsection \<open>EvaluationScores\<close>


lemma validate_EvaluationScores_Inr_iff:
  "validate_EvaluationScores L raw = Inr es \<longleftrightarrow>
     default_field raw ''faithfulness'' None (EvaluationScores_faithfulness L) = Inr (faithfulness es) \<and>
     default_field raw ''answer_relevancy'' None (EvaluationScores_answer_relevancy L) = Inr (answer_relevancy es) \<and>
     default_field raw ''evaluation_time_ms'' None (EvaluationScores_evaluation_time_ms L) = Inr (evaluation_time_ms es) \<and>
     default_field raw ''error'' None EvaluationScores_error = Inr (error es)"
  by (cases es) (auto simp: validate_EvaluationScores_def Let_def split: sum.splits)

lemma validate_EvaluationScores_cases:
  "(\<exists>es. validate_EvaluationScores L raw = Inr es) \<or> (\<exists>errors. validate_EvaluationScores L raw = Inl errors)"
  by (cases "validate_EvaluationScores L raw") auto

lemma unit_float_Inr:
  "constrained_float L (Some 0) (Some 1) v = Inr x \<Longrightarrow> \<exists>r. x = Finite r \<and> 0 \<le> r \<and> r \<le> 1"
  by (cases x) (auto simp: constrained_float_def split: sum.splits if_splits)

lemma unit_float_PFloat:
  "constrained_float L (Some 0) (Some 1) (PFloat x) =
     (if \<not> float_le x 1 then Inl LessThanEqual
      else if \<not> float_ge x 0 then Inl GreaterThanEqual else Inr x)"
  by (simp add: constrained_float_def)

lemma free_float_PFloat: "constrained_float L None None (PFloat x) = Inr x"
  by (simp add: constrained_float_def)

lemma unit_iff: "float_ge x 0 \<and> float_le x 1 \<longleftrightarrow> (\<exists>r. x = Finite r \<and> 0 \<le> r \<and> r \<le> 1)"
  by (cases x) auto

lemma faithfulness_field_Some:
  "default_field raw ''faithfulness'' None (EvaluationScores_faithfulness L) = Inr (Some x)
   \<Longrightarrow> \<exists>r. x = Finite r \<and> 0 \<le> r \<and> r \<le> 1"
  by (auto simp: default_field_def EvaluationScores_faithfulness_def at_field_def nullable_def
      split: option.splits sum.splits py_value.splits dest: unit_float_Inr)

lemma answer_relevancy_field_Some:
  "default_field raw ''answer_relevancy'' None (EvaluationScores_answer_relevancy L) = Inr (Some x)
   \<Longrightarrow> \<exists>r. x = Finite r \<and> 0 \<le> r \<and> r \<le> 1"
  by (auto simp: default_field_def EvaluationScores_answer_relevancy_def at_field_def nullable_def
      split: option.splits sum.splits py_value.splits dest: unit_float_Inr)

lemma score_kwarg:
  "at_field name (nullable (constrained_float L (Some 0) (Some 1)) (opt_value PFloat s)) = Inr s' \<longleftrightarrow>
     unit_score s \<and> s' = s"
  by (cases s) (auto simp: at_field_def nullable_def opt_value_def unit_float_PFloat unit_score_def)

lemma time_kwarg:
  "at_field name (nullable (constrained_float L None None) (opt_value PFloat s)) = Inr s"
  by (cases s) (auto simp: at_field_def nullable_def opt_value_def free_float_PFloat)

lemma error_kwarg:
  "at_field name (nullable str_validator (opt_value PStr s)) = Inr s"
  by (cases s) (auto simp: at_field_def nullable_def opt_value_def)

lemma validate_EvaluationScores_kwargs:
  "validate_EvaluationScores L (EvaluationScores_kwargs v) = Inr es \<longleftrightarrow>
     unit_score (faithfulness v) \<and> unit_score (answer_relevancy v) \<and> es = v"
  unfolding validate_EvaluationScores_Inr_iff
  by (auto simp: EvaluationScores_kwargs_def default_field_def
      EvaluationScores_faithfulness_def EvaluationScores_answer_relevancy_def
      EvaluationScores_evaluation_time_ms_def EvaluationScores_error_def
      score_kwarg time_kwarg error_kwarg)


text \<open>
  Claim C2. Every instance that validation returns has each score either absent or a
  finite value between 0 and 1, both ends included. An instance with given field
  values can be constructed if and only if both scores are absent or in that interval;
  any other score (also an infinity or NaN) is rejected with a validation error.
\<close>

theorem EvaluationScores_score_range:
  "(validate_EvaluationScores L raw = Inr es \<longrightarrow>
      unit_score (faithfulness es) \<and> unit_score (answer_relevancy es))
   \<and> ((\<exists>es'. validate_EvaluationScores L (EvaluationScores_kwargs v) = Inr es') \<longleftrightarrow>
        unit_score (faithfulness v) \<and> unit_score (answer_relevancy v))
   \<and> (\<not> (unit_score (faithfulness v) \<and> unit_score (answer_relevancy v)) \<longrightarrow>
        (\<exists>errors. validate_EvaluationScores L (EvaluationScores_kwargs v) = Inl errors))
   \<and> (unit_score s \<longleftrightarrow> (\<forall>x. s = Some x \<longrightarrow> (\<exists>r. x = Finite r \<and> 0 \<le> r \<and> r \<le> 1)))"
proof -
  have inv: "unit_score (faithfulness es) \<and> unit_score (answer_relevancy es)"
    if ok: "validate_EvaluationScores L raw = Inr es"
  proof -
    have "unit_score (faithfulness es)"
    proof (cases "faithfulness es")
      case (Some x)
      with ok show ?thesis
        using faithfulness_field_Some [of raw L x]
        by (simp add: validate_EvaluationScores_Inr_iff unit_score_def unit_iff)
    qed (simp add: unit_score_def)
    moreover have "unit_score (answer_relevancy es)"
    proof (cases "answer_relevancy es")
      case (Some x)
      with ok show ?thesis
        using answer_relevancy_field_Some [of raw L x]
        by (simp add: validate_EvaluationScores_Inr_iff unit_score_def unit_iff)
    qed (simp add: unit_score_def)
    ultimately show ?thesis ..
  qed
  have acc: "(\<exists>es'. validate_EvaluationScores L (EvaluationScores_kwargs v) = Inr es') \<longleftrightarrow>
        unit_score (faithfulness v) \<and> unit_score (answer_relevancy v)"
    by (simp add: validate_EvaluationScores_kwargs)
  have rej: "\<exists>errors. validate_EvaluationScores L (EvaluationScores_kwargs v) = Inl errors"
    if "\<not> (unit_score (faithfulness v) \<and> unit_score (answer_relevancy v))"
    using that acc validate_EvaluationScores_cases [of L "EvaluationScores_kwargs v"] by blast
  have meaning: "unit_score s \<longleftrightarrow> (\<forall>x. s = Some x \<longrightarrow> (\<exists>r. x = Finite r \<and> 0 \<le> r \<and> r \<le> 1))"
    by (cases s) (simp_all add: unit_score_def unit_iff)
  from inv acc rej meaning show ?thesis by blast
qed

theorem EvaluationScores_score_range_witness:
  "validate_EvaluationScores small_int_conversions
      [(''faithfulness'', PFloat (Finite (1/2))), (''answer_relevancy'', PInt 1)] =
     Inr \<lparr>faithfulness = Some (Finite (1/2)), answer_relevancy = Some (Finite 1),
          evaluation_time_ms = None, error = None\<rparr>
   \<and> unit_score (Some (Finite (1/2))) \<and> unit_score (Some (Finite 1))
   \<and> \<not> unit_score (Some (Finite (3/2))) \<and> \<not> unit_score (Some NaN)
   \<and> (\<exists>errors. validate_EvaluationScores small_int_conversions
         (EvaluationScores_kwargs \<lparr>faithfulness = Some (Finite (3/2)), answer_relevancy = None,
            evaluation_time_ms = None, error = None\<rparr>) = Inl errors)"
  using EvaluationScores_score_range [of small_int_conversions
        "[(''faithfulness'', PFloat (Finite (1/2))), (''answer_relevancy'', PInt 1)]"
        "\<lparr>faithfulness = Some (Finite (1/2)), answer_relevancy = Some (Finite 1),
          evaluation_time_ms = None, error = None\<rparr>"
        "\<lparr>faithfulness = Some (Finite (3/2)), answer_relevancy = None,
            evaluation_time_ms = None, error = None\<rparr>" "Some NaN"]
  by (simp add: unit_score_def validate_EvaluationScores_def default_field_def
      EvaluationScores_faithfulness_def EvaluationScores_answer_relevancy_def
      at_field_def nullable_def constrained_float_def small_int_conversions_def)

text \<open>
  Claim C10. No constraint ties the fields together: an instance with both scores
  present (and in range) and an error message present as well is accepted as it is.
\<close>

theorem EvaluationScores_scores_with_error:
  assumes "faithfulness v = Some f" and "answer_relevancy v = Some a" and "error v = Some message"
    and "float_ge f 0 \<and> float_le f 1" and "float_ge a 0 \<and> float_le a 1"
  shows "validate_EvaluationScores L (EvaluationScores_kwargs v) = Inr v"
  using assms by (simp add: validate_EvaluationScores_kwargs unit_score_def)

theorem EvaluationScores_scores_with_error_witness:
  "validate_EvaluationScores small_int_conversions
     [(''faithfulness'', PFloat (Finite (9/10))), (''answer_relevancy'', PFloat (Finite (4/5))),
      (''evaluation_time_ms'', PNone), (''error'', PStr (str_of ''judge model unavailable''))] =
   Inr \<lparr>faithfulness = Some (Finite (9/10)), answer_relevancy = Some (Finite (4/5)),
        evaluation_time_ms = None, error = Some (str_of ''judge model unavailable'')\<rparr>"
  using EvaluationScores_scores_with_error [of "\<lparr>faithfulness = Some (Finite (9/10)), answer_relevancy = Some (Finite (4/5)),
        evaluation_time_ms = None, error = Some (str_of ''judge model unavailable'')\<rparr>"
      "Finite (9/10)" "Finite (4/5)" "str_of ''judge model unavailable''" small_int_conversions]
  by (simp add: EvaluationScores_kwargs_def opt_value_def)

lemma nullable_None_iff:
  "nullable inner v = Inr None \<longleftrightarrow> v = PNone"
  by (cases v) (auto simp: nullable_def split: sum.splits)

lemma optional_field_None_iff:
  "default_field raw name None (\<lambda>v. at_field name (nullable inner v)) = Inr None \<longleftrightarrow>
     map_of raw name = None \<or> map_of raw name = Some PNone"
proof (cases "map_of raw name")
  case None
  then show ?thesis by (simp add: default_field_def)
next
  case (Some v)
  have "at_field name (nullable inner v) = Inr None \<longleftrightarrow> nullable inner v = Inr None"
    by (cases "nullable inner v") (simp_all add: at_field_def)
  with Some show ?thesis by (simp add: default_field_def nullable_None_iff)
qed

lemma faithfulness_None_iff:
  "default_field raw ''faithfulness'' None (EvaluationScores_faithfulness L) = Inr None \<longleftrightarrow>
     map_of raw ''faithfulness'' = None \<or> map_of raw ''faithfulness'' = Some PNone"
  using optional_field_None_iff [of raw "''faithfulness''" "constrained_float L (Some 0) (Some 1)"]
  by (simp add: EvaluationScores_faithfulness_def [abs_def])

lemma answer_relevancy_None_iff:
  "default_field raw ''answer_relevancy'' None (EvaluationScores_answer_relevancy L) = Inr None \<longleftrightarrow>
     map_of raw ''answer_relevancy'' = None \<or> map_of raw ''answer_relevancy'' = Some PNone"
  using optional_field_None_iff [of raw "''answer_relevancy''" "constrained_float L (Some 0) (Some 1)"]
  by (simp add: EvaluationScores_answer_relevancy_def [abs_def])

lemma evaluation_time_ms_None_iff:
  "default_field raw ''evaluation_time_ms'' None (EvaluationScores_evaluation_time_ms L) = Inr None \<longleftrightarrow>
     map_of raw ''evaluation_time_ms'' = None \<or> map_of raw ''evaluation_time_ms'' = Some PNone"
  using optional_field_None_iff [of raw "''evaluation_time_ms''" "constrained_float L None None"]
  by (simp add: EvaluationScores_evaluation_time_ms_def [abs_def])

lemma validate_QueryResponse_Inr_iff:
  "validate_QueryResponse L raw = Inr resp \<longleftrightarrow>
     required_field raw ''question'' (\<lambda>v. at_field ''question'' (str_validator v)) = Inr (question resp) \<and>
     required_field raw ''answer'' (\<lambda>v. at_field ''answer'' (str_validator v)) = Inr (answer resp) \<and>
     default_field raw ''sources'' None QueryResponse_sources = Inr (sources resp) \<and>
     required_field raw ''processing_time_ms''
        (\<lambda>v. at_field ''processing_time_ms'' (constrained_float L None None v)) = Inr (processing_time_ms resp) \<and>
     default_field raw ''evaluation'' None (QueryResponse_evaluation L) = Inr (evaluation resp)"
  by (cases resp) (auto simp: validate_QueryResponse_def Let_def split: sum.splits)

lemma free_float: "constrained_float L None None v = float_validator L v"
  by (simp add: constrained_float_def split: sum.splits)

lemma processing_time_ms_required:
  "required_field raw ''processing_time_ms''
        (\<lambda>v. at_field ''processing_time_ms'' (constrained_float L None None v)) = Inr x \<longleftrightarrow>
   (\<exists>v. map_of raw ''processing_time_ms'' = Some v \<and> float_validator L v = Inr x)"
  by (auto simp: required_field_def at_field_def free_float split: option.splits sum.splits)

text \<open>
  Claim C8. Absence is \<open>None\<close> and nothing else. In a validated \<open>EvaluationScores\<close>
  each of the three numeric fields is \<open>None\<close> exactly when the key was missing or
  given as \<open>None\<close> (so no number, \<open>-1\<close> included, stands for absence), and with no
  key given all fields default to \<open>None\<close>. \<open>QueryResponse\<close> has no optional numeric
  field: its one numeric field is required and is never \<open>None\<close>.
\<close>

theorem optional_numeric_fields_use_None:
  "(validate_EvaluationScores L raw = Inr es \<longrightarrow>
      (faithfulness es = None \<longleftrightarrow>
         map_of raw ''faithfulness'' = None \<or> map_of raw ''faithfulness'' = Some PNone)
    \<and> (answer_relevancy es = None \<longleftrightarrow>
         map_of raw ''answer_relevancy'' = None \<or> map_of raw ''answer_relevancy'' = Some PNone)
    \<and> (evaluation_time_ms es = None \<longleftrightarrow>
         map_of raw ''evaluation_time_ms'' = None \<or> map_of raw ''evaluation_time_ms'' = Some PNone))
   \<and> validate_EvaluationScores L [] =
        Inr \<lparr>faithfulness = None, answer_relevancy = None, evaluation_time_ms = None, error = None\<rparr>
   \<and> (validate_QueryResponse L body = Inr resp \<longrightarrow>
        (\<exists>v. map_of body ''processing_time_ms'' = Some v \<and> v \<noteq> PNone
            \<and> float_validator L v = Inr (processing_time_ms resp)))"
proof -
  have opt: "(faithfulness es = None \<longleftrightarrow>
         map_of raw ''faithfulness'' = None \<or> map_of raw ''faithfulness'' = Some PNone)
    \<and> (answer_relevancy es = None \<longleftrightarrow>
         map_of raw ''answer_relevancy'' = None \<or> map_of raw ''answer_relevancy'' = Some PNone)
    \<and> (evaluation_time_ms es = None \<longleftrightarrow>
         map_of raw ''evaluation_time_ms'' = None \<or> map_of raw ''evaluation_time_ms'' = Some PNone)"
    if ok: "validate_EvaluationScores L raw = Inr es"
  proof -
    from ok have f: "default_field raw ''faithfulness'' None (EvaluationScores_faithfulness L) = Inr (faithfulness es)"
      and a: "default_field raw ''answer_relevancy'' None (EvaluationScores_answer_relevancy L) = Inr (answer_relevancy es)"
      and t: "default_field raw ''evaluation_time_ms'' None (EvaluationScores_evaluation_time_ms L) = Inr (evaluation_time_ms es)"
      by (simp_all add: validate_EvaluationScores_Inr_iff)
    have "faithfulness es = None \<longleftrightarrow>
        map_of raw ''faithfulness'' = None \<or> map_of raw ''faithfulness'' = Some PNone"
      using faithfulness_None_iff [of raw L] by (simp add: f)
    moreover have "answer_relevancy es = None \<longleftrightarrow>
        map_of raw ''answer_relevancy'' = None \<or> map_of raw ''answer_relevancy'' = Some PNone"
      using answer_relevancy_None_iff [of raw L] by (simp add: a)
    moreover have "evaluation_time_ms es = None \<longleftrightarrow>
        map_of raw ''evaluation_time_ms'' = None \<or> map_of raw ''evaluation_time_ms'' = Some PNone"
      using evaluation_time_ms_None_iff [of raw L] by (simp add: t)
    ultimately show ?thesis by blast
  qed
  have dflt: "validate_EvaluationScores L [] =
        Inr \<lparr>faithfulness = None, answer_relevancy = None, evaluation_time_ms = None, error = None\<rparr>"
    by (simp add: validate_EvaluationScores_def default_field_def)
  have req: "\<exists>v. map_of body ''processing_time_ms'' = Some v \<and> v \<noteq> PNone
            \<and> float_validator L v = Inr (processing_time_ms resp)"
    if "validate_QueryResponse L body = Inr resp"
    using that unfolding validate_QueryResponse_Inr_iff processing_time_ms_required by auto
  from opt dflt req show ?thesis by blast
qed

theorem optional_numeric_fields_use_None_witness:
  "validate_EvaluationScores small_int_conversions
      [(''faithfulness'', PNone), (''evaluation_time_ms'', PFloat (Finite (- 1)))] =
     Inr \<lparr>faithfulness = None, answer_relevancy = None,
          evaluation_time_ms = Some (Finite (- 1)), error = None\<rparr>
   \<and> validate_QueryResponse small_int_conversions
      [(''question'', PStr (str_of ''What is RAG?'')), (''answer'', PStr (str_of ''Retrieval-augmented generation.'')),
       (''processing_time_ms'', PFloat (Finite 12))] =
     Inr \<lparr>question = str_of ''What is RAG?'', answer = str_of ''Retrieval-augmented generation.'',
          sources = None, processing_time_ms = Finite 12, evaluation = None\<rparr>"
  using optional_numeric_fields_use_None [of small_int_conversions
      "[(''faithfulness'', PNone), (''evaluation_time_ms'', PFloat (Finite (- 1)))]"
      "\<lparr>faithfulness = None, answer_relevancy = None,
          evaluation_time_ms = Some (Finite (- 1)), error = None\<rparr>"
      "[(''question'', PStr (str_of ''What is RAG?'')), (''answer'', PStr (str_of ''Retrieval-augmented generation.'')),
       (''processing_time_ms'', PFloat (Finite 12))]"
      "\<lparr>question = str_of ''What is RAG?'', answer = str_of ''Retrieval-augmented generation.'',
          sources = None, processing_time_ms = Finite 12, evaluation = None\<rparr>"]
  by (simp add: validate_EvaluationScores_def validate_QueryResponse_def default_field_def
      required_field_def EvaluationScores_faithfulness_def EvaluationScores_evaluation_time_ms_def
      at_field_def nullable_def constrained_float_def)


subsection \<open>QueryResponse\<close>

text \<open>
  Claim C3, as stated, fails: the field \<open>processing_time_ms\<close> is a plain \<open>float\<close>
  with no bound, and a response with the value \<open>-1.0\<close> is accepted.
\<close>

theorem QueryResponse_negative_processing_time_accepted:
  "validate_QueryResponse small_int_conversions
      [(''question'', PStr (str_of ''What is RAG?'')),
       (''answer'', PStr (str_of ''Retrieval-augmented generation.'')),
       (''processing_time_ms'', PFloat (Finite (- 1)))] =
     Inr \<lparr>question = str_of ''What is RAG?'', answer = str_of ''Retrieval-augmented generation.'',
          sources = None, processing_time_ms = Finite (- 1), evaluation = None\<rparr>
   \<and> \<not> float_ge (Finite (- 1)) 0"
  by (simp add: validate_QueryResponse_def default_field_def required_field_def
      at_field_def constrained_float_def)

text \<open>
  Claim C3, amended. The schema requires \<open>processing_time_ms\<close> to be present and a
  float, and sets no bound on it: every float there is accepted as it is, negative
  ones included.
\<close>

theorem QueryResponse_processing_time_unbounded:
  "validate_QueryResponse L
      [(''question'', PStr q), (''answer'', PStr a), (''processing_time_ms'', PFloat x)] =
     Inr \<lparr>question = q, answer = a, sources = None, processing_time_ms = x, evaluation = None\<rparr>
   \<and> (validate_QueryResponse L body = Inr resp \<longrightarrow>
        (\<exists>v. map_of body ''processing_time_ms'' = Some v
            \<and> float_validator L v = Inr (processing_time_ms resp)))"
proof -
  have "validate_QueryResponse L
      [(''question'', PStr q), (''answer'', PStr a), (''processing_time_ms'', PFloat x)] =
     Inr \<lparr>question = q, answer = a, sources = None, processing_time_ms = x, evaluation = None\<rparr>"
    by (simp add: validate_QueryResponse_def default_field_def required_field_def
      at_field_def constrained_float_def)
  moreover have "\<exists>v. map_of body ''processing_time_ms'' = Some v
            \<and> float_validator L v = Inr (processing_time_ms resp)"
    if "validate_QueryResponse L body = Inr resp"
    using that unfolding validate_QueryResponse_Inr_iff processing_time_ms_required by auto
  ultimately show ?thesis by blast
qed

theorem QueryResponse_processing_time_unbounded_witness:
  "validate_QueryResponse small_int_conversions
      [(''question'', PStr (str_of ''What is RAG?'')),
       (''answer'', PStr (str_of ''Retrieval-augmented generation.'')),
       (''processing_time_ms'', PFloat (Finite (- 250)))] =
     Inr \<lparr>question = str_of ''What is RAG?'', answer = str_of ''Retrieval-augmented generation.'',
          sources = None, processing_time_ms = Finite (- 250), evaluation = None\<rparr>
   \<and> map_of [(''question'', PStr (str_of ''What is RAG?'')),
       (''answer'', PStr (str_of ''Retrieval-augmented generation.'')),
       (''processing_time_ms'', PFloat (Finite (- 250)))] ''processing_time_ms'' = Some (PFloat (Finite (- 250)))
   \<and> float_validator small_int_conversions (PFloat (Finite (- 250))) = Inr (Finite (- 250))"
  using QueryResponse_processing_time_unbounded [of small_int_conversions "str_of ''What is RAG?''"
      "str_of ''Retrieval-augmented generation.''" "Finite (- 250)"
      "[(''question'', PStr (str_of ''What is RAG?'')),
       (''answer'', PStr (str_of ''Retrieval-augmented generation.'')),
       (''processing_time_ms'', PFloat (Finite (- 250)))]"
      "\<lparr>question = str_of ''What is RAG?'', answer = str_of ''Retrieval-augmented generation.'',
          sources = None, processing_time_ms = Finite (- 250), evaluation = None\<rparr>"]
  by simp

subsection \<open>ReadinessResponse\<close>

lemma validate_ReadinessResponse_Inr_iff:
  "validate_ReadinessResponse raw = Inr r \<longleftrightarrow>
     required_field raw ''status'' (\<lambda>v. at_field ''status'' (str_validator v)) = Inr (status r) \<and>
     required_field raw ''qdrant_connected'' (\<lambda>v. at_field ''qdrant_connected'' (bool_validator v))
        = Inr (qdrant_connected r) \<and>
     required_field raw ''collection_info'' (\<lambda>v. at_field ''collection_info'' (dict_validator v))
        = Inr (collection_info r)"
  by (cases r) (auto simp: validate_ReadinessResponse_def Let_def split: sum.splits)

lemma validate_ReadinessResponse_errors:
  "errors_of (validate_ReadinessResponse raw) =
     errors_of (required_field raw ''status'' (\<lambda>v. at_field ''status'' (str_validator v))) @
     errors_of (required_field raw ''qdrant_connected'' (\<lambda>v. at_field ''qdrant_connected'' (bool_validator v))) @
     errors_of (required_field raw ''collection_info'' (\<lambda>v. at_field ''collection_info'' (dict_validator v)))"
  by (auto simp: validate_ReadinessResponse_def Let_def split: sum.splits)

lemma required_field_Inr:
  "required_field raw name (\<lambda>v. at_field name (validator v)) = Inr a \<longleftrightarrow>
     (\<exists>v. map_of raw name = Some v \<and> validator v = Inr a)"
  by (auto simp: required_field_def at_field_def split: option.splits sum.splits)

lemma required_field_missing:
  "map_of raw name = None \<Longrightarrow> required_field raw name validator = Inl [([Key name], Missing)]"
  by (simp add: required_field_def)

lemma str_validator_Inr: "str_validator v = Inr s \<longleftrightarrow> v = PStr s"
  by (cases v) auto

lemma dict_validator_Inr: "dict_validator v = Inr d \<longleftrightarrow> v = PDict d"
  by (cases v) auto

lemma errors_nonempty_Inl:
  "errors_of r \<noteq> [] \<Longrightarrow> r = Inl (errors_of r)"
  by (cases r) simp_all

text \<open>
  Claim C7. A readiness response holds a status string, a boolean connectivity flag and
  the collection information, each taken from the key of that name; and when any of the
  three keys is missing, validation fails with the error \<open>missing\<close> at that field.
\<close>

theorem ReadinessResponse_fields_required:
  "(validate_ReadinessResponse raw = Inr r \<longrightarrow>
      map_of raw ''status'' = Some (PStr (status r))
    \<and> (\<exists>v. map_of raw ''qdrant_connected'' = Some v \<and> bool_validator v = Inr (qdrant_connected r))
    \<and> map_of raw ''collection_info'' = Some (PDict (collection_info r)))
   \<and> (map_of raw ''status'' = None \<longrightarrow>
        (\<exists>errors. validate_ReadinessResponse raw = Inl errors
           \<and> ([Key ''status''], Missing) \<in> set errors))
   \<and> (map_of raw ''qdrant_connected'' = None \<longrightarrow>
        (\<exists>errors. validate_ReadinessResponse raw = Inl errors
           \<and> ([Key ''qdrant_connected''], Missing) \<in> set errors))
   \<and> (map_of raw ''collection_info'' = None \<longrightarrow>
        (\<exists>errors. validate_ReadinessResponse raw = Inl errors
           \<and> ([Key ''collection_info''], Missing) \<in> set errors))"
proof -
  have present: "map_of raw ''status'' = Some (PStr (status r))
    \<and> (\<exists>v. map_of raw ''qdrant_connected'' = Some v \<and> bool_validator v = Inr (qdrant_connected r))
    \<and> map_of raw ''collection_info'' = Some (PDict (collection_info r))"
    if "validate_ReadinessResponse raw = Inr r"
    using that
    by (simp add: validate_ReadinessResponse_Inr_iff required_field_Inr str_validator_Inr
        dict_validator_Inr)
  have missing: "\<exists>errors. validate_ReadinessResponse raw = Inl errors
           \<and> ([Key name], Missing) \<in> set errors"
    if "map_of raw name = None"
      and "name \<in> {''status'', ''qdrant_connected'', ''collection_info''}" for name
  proof -
    have "([Key name], Missing) \<in> set (errors_of (validate_ReadinessResponse raw))"
      using that by (auto simp: validate_ReadinessResponse_errors required_field_missing)
    then show ?thesis
      using errors_nonempty_Inl [of "validate_ReadinessResponse raw"] by force
  qed
  from present missing [of "''status''"] missing [of "''qdrant_connected''"]
    missing [of "''collection_info''"]
  show ?thesis by simp
qed

theorem ReadinessResponse_fields_required_witness:
  "validate_ReadinessResponse
      [(''status'', PStr (str_of ''ready'')), (''qdrant_connected'', PBool True),
       (''collection_info'', PDict [(''points_count'', PInt 4)])] =
     Inr \<lparr>status = str_of ''ready'', qdrant_connected = True,
          collection_info = [(''points_count'', PInt 4)]\<rparr>
   \<and> map_of [(''status'', PStr (str_of ''degraded'')), (''collection_info'', PDict [])]
        ''qdrant_connected'' = None
   \<and> (\<exists>errors. validate_ReadinessResponse
         [(''status'', PStr (str_of ''degraded'')), (''collection_info'', PDict [])] = Inl errors
           \<and> ([Key ''qdrant_connected''], Missing) \<in> set errors)"
  using ReadinessResponse_fields_required
      [of "[(''status'', PStr (str_of ''ready'')), (''qdrant_connected'', PBool True),
            (''collection_info'', PDict [(''points_count'', PInt 4)])]"
          "\<lparr>status = str_of ''ready'', qdrant_connected = True,
            collection_info = [(''points_count'', PInt 4)]\<rparr>"]
    ReadinessResponse_fields_required
      [of "[(''status'', PStr (str_of ''degraded'')), (''collection_info'', PDict [])]"]
  by (simp add: validate_ReadinessResponse_def required_field_def at_field_def)

subsection \<open>The pipeline\<close>

text \<open>
  A body that validation rejects reaches no component: the boundary returns the
  validation error and the list of calls is empty.
\<close>

lemma post_query_rejects_before_any_call:
  "validate_QueryRequest body = Inl errors \<Longrightarrow>
   post_query C k body = ([], Inl (ValidationError errors))"
  by (simp add: post_query_def)

lemma post_query_valid:
  "validate_QueryRequest body = Inr query \<Longrightarrow> post_query C k body = QueryPipeline_answer C k query"
  by (simp add: post_query_def)

lemma QueryPipeline_answer_unreachable:
  "index C = Unreachable why \<Longrightarrow>
   QueryPipeline_answer C k query = ([RetrievalRead], Inl (RetrievalFailed why))"
  by (simp add: QueryPipeline_answer_def Retriever_retrieve_def)

lemma QueryPipeline_answer_generation_failed:
  "Retriever_retrieve C (QueryRequest.question query) k = Inr passages \<Longrightarrow>
   generator C (QueryRequest.question query) passages = Inl message \<Longrightarrow>
   QueryPipeline_answer C k query = ([RetrievalRead, GenerationCall], Inl (GenerationFailed message))"
  by (simp add: QueryPipeline_answer_def)

lemma QueryPipeline_answer_done:
  "Retriever_retrieve C (QueryRequest.question query) k = Inr passages \<Longrightarrow>
   generator C (QueryRequest.question query) passages = Inr text \<Longrightarrow>
   QueryPipeline_answer C k query =
     ([RetrievalRead, GenerationCall] @ (if enable_evaluation query then [EvaluationCall] else []),
      Inr \<lparr>question = QueryRequest.question query, answer = text,
           sources = (if include_sources query then Some passages else None),
           processing_time_ms = Finite (sum_list (map (latency_ms C)
              ([RetrievalRead, GenerationCall] @ (if enable_evaluation query then [EvaluationCall] else [])))),
           evaluation = (if enable_evaluation query
                         then Some (Evaluator_score C (QueryRequest.question query) text passages)
                         else None)\<rparr>)"
  by (simp add: QueryPipeline_answer_def Let_def)

lemma Retriever_retrieve_cases:
  "(\<exists>why. index C = Unreachable why \<and> Retriever_retrieve C q k = Inl (IndexUnavailable why)) \<or>
   (\<exists>chunks passages. index C = Collection chunks \<and> Retriever_retrieve C q k = Inr passages
       \<and> length passages \<le> k)"
  by (cases "index C") (simp_all add: Retriever_retrieve_def)

lemma Retriever_retrieve_length:
  "Retriever_retrieve C q k = Inr passages \<Longrightarrow> length passages \<le> k"
  by (auto simp: Retriever_retrieve_def split: vector_index.splits)

lemma validate_QueryResponse_errors:
  "errors_of (validate_QueryResponse L raw) =
     errors_of (required_field raw ''question'' (\<lambda>v. at_field ''question'' (str_validator v))) @
     errors_of (required_field raw ''answer'' (\<lambda>v. at_field ''answer'' (str_validator v))) @
     errors_of (default_field raw ''sources'' None QueryResponse_sources) @
     errors_of (required_field raw ''processing_time_ms''
        (\<lambda>v. at_field ''processing_time_ms'' (constrained_float L None None v))) @
     errors_of (default_field raw ''evaluation'' None (QueryResponse_evaluation L))"
  by (auto simp: validate_QueryResponse_def Let_def split: sum.splits)

text \<open>
  Claim C5. The pipeline ends in exactly one of three ways: it returns a result whose
  answer is the string the generator produced, or it fails with \<open>RetrievalFailed\<close>
  (the index was unreachable), or it fails with \<open>GenerationFailed\<close> (the generator
  failed on the retrieved passages). A request with a question of 1 to 1000 characters
  never ends in a validation error at the boundary. And \<open>QueryResponse\<close> cannot be
  built when \<open>answer\<close> is missing or \<open>None\<close>: validation reports an error at that
  field.
\<close>

theorem answer_returns_or_fails:
  "((\<exists>passages text resp.
        Retriever_retrieve C (QueryRequest.question query) k = Inr passages
      \<and> generator C (QueryRequest.question query) passages = Inr text
      \<and> snd (QueryPipeline_answer C k query) = Inr resp \<and> answer resp = text)
    \<or> (\<exists>why. index C = Unreachable why
      \<and> snd (QueryPipeline_answer C k query) = Inl (RetrievalFailed why))
    \<or> (\<exists>passages message.
        Retriever_retrieve C (QueryRequest.question query) k = Inr passages
      \<and> generator C (QueryRequest.question query) passages = Inl message
      \<and> snd (QueryPipeline_answer C k query) = Inl (GenerationFailed message)))
   \<and> (map_of body ''question'' = Some (PStr q) \<and> 1 \<le> length q \<and> length q \<le> 1000
        \<and> flags_accepted body \<longrightarrow>
        (\<forall>errors. snd (post_query C k body) \<noteq> Inl (ValidationError errors)))
   \<and> (map_of raw ''answer'' = None \<or> map_of raw ''answer'' = Some PNone \<longrightarrow>
        (\<exists>errors e. validate_QueryResponse L raw = Inl errors \<and> ([Key ''answer''], e) \<in> set errors))"
proof -
  let ?q = "QueryRequest.question query"
  have outcome: "(\<exists>passages text resp.
        Retriever_retrieve C ?q k = Inr passages
      \<and> generator C ?q passages = Inr text
      \<and> snd (QueryPipeline_answer C k query) = Inr resp \<and> answer resp = text)
    \<or> (\<exists>why. index C = Unreachable why
      \<and> snd (QueryPipeline_answer C k query) = Inl (RetrievalFailed why))
    \<or> (\<exists>passages message.
        Retriever_retrieve C ?q k = Inr passages
      \<and> generator C ?q passages = Inl message
      \<and> snd (QueryPipeline_answer C k query) = Inl (GenerationFailed message))"
  proof (cases "index C")
    case (Unreachable why)
    then show ?thesis by (simp add: QueryPipeline_answer_unreachable)
  next
    case (Collection chunks)
    then obtain passages where r: "Retriever_retrieve C ?q k = Inr passages"
      by (simp add: Retriever_retrieve_def)
    show ?thesis
    proof (cases "generator C ?q passages")
      case (Inl message)
      with r show ?thesis by (simp add: QueryPipeline_answer_generation_failed)
    next
      case (Inr reply)
      with r show ?thesis by (simp add: QueryPipeline_answer_done)
    qed
  qed
  have never_invalid: "snd (post_query C k body) \<noteq> Inl (ValidationError errors)"
    if valid: "map_of body ''question'' = Some (PStr q) \<and> 1 \<le> length q \<and> length q \<le> 1000
        \<and> flags_accepted body" for errors
  proof -
    obtain s e where
      "default_field body ''include_sources'' True QueryRequest_include_sources = Inr s"
      "default_field body ''enable_evaluation'' False QueryRequest_enable_evaluation = Inr e"
      using flag_fields_accepted [of body] valid by blast
    with valid have "validate_QueryRequest body =
        Inr \<lparr>QueryRequest.question = q, include_sources = s, enable_evaluation = e\<rparr>"
      by (auto simp: validate_QueryRequest_def required_field_def QueryRequest_question_PStr)
    then have "post_query C k body =
        QueryPipeline_answer C k \<lparr>QueryRequest.question = q, include_sources = s, enable_evaluation = e\<rparr>"
      by (rule post_query_valid)
    then show ?thesis
      by (auto simp: QueryPipeline_answer_def Let_def
          split: sum.splits retriever_error.splits)
  qed
  have no_answer: "\<exists>errors e. validate_QueryResponse L raw = Inl errors \<and> ([Key ''answer''], e) \<in> set errors"
    if na: "map_of raw ''answer'' = None \<or> map_of raw ''answer'' = Some PNone"
  proof -
    obtain e where "required_field raw ''answer'' (\<lambda>v. at_field ''answer'' (str_validator v))
        = Inl [([Key ''answer''], e)]"
      using na by (auto simp: required_field_def at_field_def)
    then have "([Key ''answer''], e) \<in> set (errors_of (validate_QueryResponse L raw))"
      by (simp add: validate_QueryResponse_errors)
    then show ?thesis
      using errors_nonempty_Inl [of "validate_QueryResponse L raw"] by force
  qed
  from outcome never_invalid no_answer show ?thesis by blast
qed


lemma scenario_retrieve:
  "Retriever_retrieve scenario q 4 =
     Inr [\<lparr>content = str_of ''RAG is retrieval-augmented generation.'', metadata = [(''page'', PInt 1)]\<rparr>,
          \<lparr>content = str_of ''A generator writes the answer.'', metadata = []\<rparr>,
          \<lparr>content = str_of ''A retriever ranks passages.'', metadata = []\<rparr>,
          \<lparr>content = str_of ''An evaluator scores it.'', metadata = []\<rparr>]"
  by (simp add: Retriever_retrieve_def scenario_def scenario_chunks_def str_of_def)

lemma scenario_answer:
  "QueryPipeline_answer scenario 4 (scenario_query s e) =
     ([RetrievalRead, GenerationCall] @ (if e then [EvaluationCall] else []),
      Inr \<lparr>question = str_of ''What is RAG?'', answer = str_of ''Retrieval-augmented generation.'',
           sources = (if s then Some
             [\<lparr>content = str_of ''RAG is retrieval-augmented generation.'', metadata = [(''page'', PInt 1)]\<rparr>,
              \<lparr>content = str_of ''A generator writes the answer.'', metadata = []\<rparr>,
              \<lparr>content = str_of ''A retriever ranks passages.'', metadata = []\<rparr>,
              \<lparr>content = str_of ''An evaluator scores it.'', metadata = []\<rparr>] else None),
           processing_time_ms = Finite (if e then 15 else 10),
           evaluation = (if e then Some
             \<lparr>faithfulness = None, answer_relevancy = None, evaluation_time_ms = Some (Finite 5),
              error = Some (str_of ''evaluator timed out'')\<rparr> else None)\<rparr>)"
proof -
  have g: "generator scenario q passages = Inr (str_of ''Retrieval-augmented generation.'')"
    for q passages
    by (simp add: scenario_def)
  have m: "metrics scenario q a passages = Inl (str_of ''evaluator timed out'')" for q a passages
    by (simp add: scenario_def)
  have l: "latency_ms scenario c = 5" for c
    by (simp add: scenario_def)
  show ?thesis
    by (simp add: QueryPipeline_answer_done [OF scenario_retrieve g] Evaluator_score_def m l
        scenario_query_def)
qed

text \<open>
  Claim C4. With evaluation enabled, retrieval and generation succeeding and the
  evaluator failing internally, the query succeeds and its result carries an
  \<open>EvaluationScores\<close> with both scores \<open>None\<close> and the failure's message in
  \<open>error\<close>. That value is a valid instance of the schema; so is the one built from
  the error message alone, and with no field given all four fields are \<open>None\<close>.
\<close>

theorem evaluation_failure_degrades:
  assumes "enable_evaluation query"
    and "Retriever_retrieve C (QueryRequest.question query) k = Inr passages"
    and "generator C (QueryRequest.question query) passages = Inr reply"
    and "metrics C (QueryRequest.question query) reply passages = Inl message"
  shows "(\<exists>resp es. snd (QueryPipeline_answer C k query) = Inr resp
            \<and> evaluation resp = Some es
            \<and> faithfulness es = None \<and> answer_relevancy es = None \<and> error es = Some message
            \<and> validate_EvaluationScores L (EvaluationScores_kwargs es) = Inr es)
       \<and> validate_EvaluationScores L [(''error'', PStr message)] =
           Inr \<lparr>faithfulness = None, answer_relevancy = None, evaluation_time_ms = None,
                error = Some message\<rparr>
       \<and> validate_EvaluationScores L [] =
           Inr \<lparr>faithfulness = None, answer_relevancy = None, evaluation_time_ms = None,
                error = None\<rparr>"
proof -
  let ?es = "Evaluator_score C (QueryRequest.question query) reply passages"
  have shape: "faithfulness ?es = None \<and> answer_relevancy ?es = None \<and> error ?es = Some message"
    using assms(4) by (simp add: Evaluator_score_def)
  then have valid: "validate_EvaluationScores L (EvaluationScores_kwargs ?es) = Inr ?es"
    by (simp add: validate_EvaluationScores_kwargs unit_score_def)
  have "snd (QueryPipeline_answer C k query) =
      Inr \<lparr>question = QueryRequest.question query, answer = reply,
           sources = (if include_sources query then Some passages else None),
           processing_time_ms = Finite (sum_list (map (latency_ms C)
              [RetrievalRead, GenerationCall, EvaluationCall])),
           evaluation = Some ?es\<rparr>"
    using assms(1) by (simp add: QueryPipeline_answer_done [OF assms(2) assms(3)])
  with shape valid have first: "\<exists>resp es. snd (QueryPipeline_answer C k query) = Inr resp
            \<and> evaluation resp = Some es
            \<and> faithfulness es = None \<and> answer_relevancy es = None \<and> error es = Some message
            \<and> validate_EvaluationScores L (EvaluationScores_kwargs es) = Inr es"
    by simp
  have second: "validate_EvaluationScores L [(''error'', PStr message)] =
           Inr \<lparr>faithfulness = None, answer_relevancy = None, evaluation_time_ms = None,
                error = Some message\<rparr>"
    by (simp add: validate_EvaluationScores_def default_field_def EvaluationScores_error_def
        at_field_def nullable_def)
  have third: "validate_EvaluationScores L [] =
           Inr \<lparr>faithfulness = None, answer_relevancy = None, evaluation_time_ms = None,
                error = None\<rparr>"
    by (simp add: validate_EvaluationScores_def default_field_def)
  from first second third show ?thesis by blast
qed

theorem evaluation_failure_degrades_witness:
  "enable_evaluation (scenario_query True True)
   \<and> metrics scenario (str_of ''What is RAG?'') (str_of ''Retrieval-augmented generation.'')
        [\<lparr>content = str_of ''RAG is retrieval-augmented generation.'', metadata = [(''page'', PInt 1)]\<rparr>,
         \<lparr>content = str_of ''A generator writes the answer.'', metadata = []\<rparr>,
         \<lparr>content = str_of ''A retriever ranks passages.'', metadata = []\<rparr>,
         \<lparr>content = str_of ''An evaluator scores it.'', metadata = []\<rparr>]
       = Inl (str_of ''evaluator timed out'')
   \<and> (\<exists>resp es. snd (QueryPipeline_answer scenario 4 (scenario_query True True)) = Inr resp
            \<and> evaluation resp = Some es
            \<and> faithfulness es = None \<and> answer_relevancy es = None
            \<and> error es = Some (str_of ''evaluator timed out'')
            \<and> validate_EvaluationScores small_int_conversions (EvaluationScores_kwargs es) = Inr es)"
proof -
  let ?passages = "[\<lparr>content = str_of ''RAG is retrieval-augmented generation.'', metadata = [(''page'', PInt 1)]\<rparr>,
         \<lparr>content = str_of ''A generator writes the answer.'', metadata = []\<rparr>,
         \<lparr>content = str_of ''A retriever ranks passages.'', metadata = []\<rparr>,
         \<lparr>content = str_of ''An evaluator scores it.'', metadata = []\<rparr>]"
  have h1: "enable_evaluation (scenario_query True True)"
    by (simp add: scenario_query_def)
  have h2: "Retriever_retrieve scenario (QueryRequest.question (scenario_query True True)) 4
      = Inr ?passages"
    by (rule scenario_retrieve)
  have h3: "generator scenario (QueryRequest.question (scenario_query True True)) ?passages
      = Inr (str_of ''Retrieval-augmented generation.'')"
    by (simp add: scenario_def)
  have h4: "metrics scenario (QueryRequest.question (scenario_query True True))
      (str_of ''Retrieval-augmented generation.'') ?passages = Inl (str_of ''evaluator timed out'')"
    by (simp add: scenario_def)
  show ?thesis
    using h1 h4 evaluation_failure_degrades [OF h1 h2 h3 h4, of small_int_conversions]
    by (simp add: scenario_query_def)
qed

theorem answer_returns_or_fails_witness:
  "(\<exists>resp. snd (QueryPipeline_answer scenario 4 (scenario_query True False)) = Inr resp
       \<and> answer resp = str_of ''Retrieval-augmented generation.'')
   \<and> map_of [(''question'', PStr (str_of ''What is RAG?''))] ''question''
        = Some (PStr (str_of ''What is RAG?''))
   \<and> 1 \<le> length (str_of ''What is RAG?'') \<and> length (str_of ''What is RAG?'') \<le> 1000
   \<and> flags_accepted [(''question'', PStr (str_of ''What is RAG?''))]
   \<and> (\<forall>errors. snd (post_query scenario 4 [(''question'', PStr (str_of ''What is RAG?''))])
          \<noteq> Inl (ValidationError errors))
   \<and> map_of [(''question'', PStr (str_of ''What is RAG?'')), (''processing_time_ms'', PFloat (Finite 10))]
        ''answer'' = None
   \<and> (\<exists>errors e. validate_QueryResponse small_int_conversions
          [(''question'', PStr (str_of ''What is RAG?'')), (''processing_time_ms'', PFloat (Finite 10))]
            = Inl errors \<and> ([Key ''answer''], e) \<in> set errors)"
  using answer_returns_or_fails [of scenario "scenario_query True False" 4
      "[(''question'', PStr (str_of ''What is RAG?''))]" "str_of ''What is RAG?''"
      "[(''question'', PStr (str_of ''What is RAG?'')), (''processing_time_ms'', PFloat (Finite 10))]"
      small_int_conversions]
  by (simp add: scenario_answer flags_accepted_def str_of_def)

text \<open>
  Claim C6. In a result of the pipeline, \<open>sources\<close> is \<open>None\<close> when
  \<open>include_sources\<close> is false and holds at most \<open>k\<close> passages when it is true;
  \<open>evaluation\<close> is \<open>None\<close> when \<open>enable_evaluation\<close> is false, and the evaluator
  is then not called. With a reachable index and \<open>include_sources\<close> true the query
  either fails in generation or returns such a list. In the schema both fields may be
  left out or given as \<open>None\<close>, and are \<open>None\<close> then.
\<close>

theorem QueryResult_optional_parts:
  "(QueryPipeline_answer C k query = (calls, Inr resp) \<longrightarrow>
       (\<not> include_sources query \<longrightarrow> sources resp = None)
     \<and> (include_sources query \<longrightarrow>
          (\<exists>passages. sources resp = Some passages \<and> length passages \<le> k))
     \<and> (\<not> enable_evaluation query \<longrightarrow> evaluation resp = None \<and> EvaluationCall \<notin> set calls))
   \<and> (index C = Collection chunks \<and> include_sources query \<longrightarrow>
        (\<exists>message. snd (QueryPipeline_answer C k query) = Inl (GenerationFailed message))
      \<or> (\<exists>r passages. snd (QueryPipeline_answer C k query) = Inr r
            \<and> sources r = Some passages \<and> length passages \<le> k))
   \<and> validate_QueryResponse L
        [(''question'', PStr q), (''answer'', PStr a), (''processing_time_ms'', PFloat t)] =
      Inr \<lparr>question = q, answer = a, sources = None, processing_time_ms = t, evaluation = None\<rparr>
   \<and> validate_QueryResponse L
        [(''question'', PStr q), (''answer'', PStr a), (''sources'', PNone),
         (''processing_time_ms'', PFloat t), (''evaluation'', PNone)] =
      Inr \<lparr>question = q, answer = a, sources = None, processing_time_ms = t, evaluation = None\<rparr>"
proof -
  let ?q = "QueryRequest.question query"
  have result: "(\<not> include_sources query \<longrightarrow> sources resp = None)
     \<and> (include_sources query \<longrightarrow>
          (\<exists>passages. sources resp = Some passages \<and> length passages \<le> k))
     \<and> (\<not> enable_evaluation query \<longrightarrow> evaluation resp = None \<and> EvaluationCall \<notin> set calls)"
    if fin: "QueryPipeline_answer C k query = (calls, Inr resp)"
  proof (cases "Retriever_retrieve C ?q k")
    case (Inl err)
    with fin show ?thesis
      by (simp add: QueryPipeline_answer_def split: retriever_error.splits)
  next
    case r: (Inr passages)
    show ?thesis
    proof (cases "generator C ?q passages")
      case (Inl message)
      with fin r show ?thesis by (simp add: QueryPipeline_answer_generation_failed)
    next
      case (Inr reply)
      with fin r Retriever_retrieve_length [OF r] show ?thesis
        by (auto simp: QueryPipeline_answer_done)
    qed
  qed
  have healthy: "(\<exists>message. snd (QueryPipeline_answer C k query) = Inl (GenerationFailed message))
      \<or> (\<exists>r passages. snd (QueryPipeline_answer C k query) = Inr r
            \<and> sources r = Some passages \<and> length passages \<le> k)"
    if h: "index C = Collection chunks \<and> include_sources query"
  proof -
    from h obtain passages where r: "Retriever_retrieve C ?q k = Inr passages"
      by (simp add: Retriever_retrieve_def)
    show ?thesis
    proof (cases "generator C ?q passages")
      case (Inl message)
      with r show ?thesis by (simp add: QueryPipeline_answer_generation_failed)
    next
      case (Inr reply)
      with r h Retriever_retrieve_length [OF r] show ?thesis
        by (simp add: QueryPipeline_answer_done)
    qed
  qed
  have absent: "validate_QueryResponse L
        [(''question'', PStr q), (''answer'', PStr a), (''processing_time_ms'', PFloat t)] =
      Inr \<lparr>question = q, answer = a, sources = None, processing_time_ms = t, evaluation = None\<rparr>"
    by (simp add: validate_QueryResponse_def default_field_def required_field_def
        at_field_def constrained_float_def)
  have null: "validate_QueryResponse L
        [(''question'', PStr q), (''answer'', PStr a), (''sources'', PNone),
         (''processing_time_ms'', PFloat t), (''evaluation'', PNone)] =
      Inr \<lparr>question = q, answer = a, sources = None, processing_time_ms = t, evaluation = None\<rparr>"
    by (simp add: validate_QueryResponse_def default_field_def required_field_def
        at_field_def constrained_float_def QueryResponse_sources_def QueryResponse_evaluation_def
        nullable_def prefix_loc_def)
  from result healthy absent null show ?thesis by blast
qed

theorem QueryResult_optional_parts_witness:
  "sources (projr (snd (QueryPipeline_answer scenario 4 (scenario_query False False)))) = None
   \<and> evaluation (projr (snd (QueryPipeline_answer scenario 4 (scenario_query True False)))) = None
   \<and> EvaluationCall \<notin> set (fst (QueryPipeline_answer scenario 4 (scenario_query True False)))
   \<and> index scenario = Collection scenario_chunks
   \<and> include_sources (scenario_query True False)
   \<and> (\<exists>r passages. snd (QueryPipeline_answer scenario 4 (scenario_query True False)) = Inr r
         \<and> sources r = Some passages \<and> length passages \<le> 4)"
  using
    QueryResult_optional_parts [of scenario 4 "scenario_query False False"
      "fst (QueryPipeline_answer scenario 4 (scenario_query False False))"
      "projr (snd (QueryPipeline_answer scenario 4 (scenario_query False False)))"]
    QueryResult_optional_parts [of scenario 4 "scenario_query True False"
      "fst (QueryPipeline_answer scenario 4 (scenario_query True False))"
      "projr (snd (QueryPipeline_answer scenario 4 (scenario_query True False)))"
      scenario_chunks]
  by (simp add: scenario_answer) (simp add: scenario_def scenario_query_def)

end
